theory Spec2Isabelle
  imports Complex_Main "HOL-Library.Char_ord" "HOL-Library.List_Lexorder"
begin

section \<open>JavaScript values used by the mock backend\<close>

text \<open>
  A JavaScript number is either one of the three special values or a finite number.
  Finite arithmetic is exact here: a sum, product or quotient of finite numbers is the
  real result, where an IEEE double would be rounded, would overflow to an infinity
  beyond the largest double and would underflow to zero below the smallest one. The two
  zeros are identified (a division of a non-zero finite number by zero takes the sign of
  the dividend).

  The lemmas of the section on the backend are facts of this exact arithmetic. The
  theorems of the section on the claims are made on what a result contains (which entry
  is the smallest, whether a value is finite, zero or positive, how the fields relate to
  each other) and not on the size of the inputs, so that they hold for the doubles of the
  source as well, whose products are ordered like the real ones but may tie, vanish or
  become infinite at the ends of the range. The values in the worked examples are the
  exact ones; the doubles differ from them in the last digit.
\<close>

datatype jsnum = NaN | PInf | NInf | Fin real

fun js_neg :: "jsnum \<Rightarrow> jsnum" where
  "js_neg NaN = NaN"
| "js_neg PInf = NInf"
| "js_neg NInf = PInf"
| "js_neg (Fin a) = Fin (- a)"

fun js_add :: "jsnum \<Rightarrow> jsnum \<Rightarrow> jsnum" where
  "js_add (Fin a) (Fin b) = Fin (a + b)"
| "js_add NaN _ = NaN"
| "js_add _ NaN = NaN"
| "js_add PInf NInf = NaN"
| "js_add NInf PInf = NaN"
| "js_add PInf _ = PInf"
| "js_add _ PInf = PInf"
| "js_add NInf _ = NInf"
| "js_add _ NInf = NInf"

definition js_sub :: "jsnum \<Rightarrow> jsnum \<Rightarrow> jsnum" where
  "js_sub x y = js_add x (js_neg y)"

text \<open>The infinity whose sign is that of a non-zero finite factor.\<close>

definition signed_inf :: "bool \<Rightarrow> jsnum" where
  "signed_inf positive = (if positive then PInf else NInf)"

fun js_mul :: "jsnum \<Rightarrow> jsnum \<Rightarrow> jsnum" where
  "js_mul (Fin a) (Fin b) = Fin (a * b)"
| "js_mul NaN _ = NaN"
| "js_mul _ NaN = NaN"
| "js_mul PInf PInf = PInf"
| "js_mul NInf NInf = PInf"
| "js_mul PInf NInf = NInf"
| "js_mul NInf PInf = NInf"
| "js_mul PInf (Fin b) = (if b = 0 then NaN else signed_inf (0 < b))"
| "js_mul NInf (Fin b) = (if b = 0 then NaN else signed_inf (b < 0))"
| "js_mul (Fin a) PInf = (if a = 0 then NaN else signed_inf (0 < a))"
| "js_mul (Fin a) NInf = (if a = 0 then NaN else signed_inf (a < 0))"

fun js_div :: "jsnum \<Rightarrow> jsnum \<Rightarrow> jsnum" where
  "js_div (Fin a) (Fin b) =
     (if b = 0 then (if a = 0 then NaN else signed_inf (0 < a)) else Fin (a / b))"
| "js_div NaN _ = NaN"
| "js_div _ NaN = NaN"
| "js_div (Fin a) PInf = Fin 0"
| "js_div (Fin a) NInf = Fin 0"
| "js_div PInf (Fin b) = signed_inf (0 \<le> b)"
| "js_div NInf (Fin b) = signed_inf (b < 0)"
| "js_div _ _ = NaN"

text \<open>\<open>x > 0\<close> and \<open>x \<le> y\<close> as JavaScript evaluates them: false whenever NaN is involved.\<close>

fun js_pos :: "jsnum \<Rightarrow> bool" where
  "js_pos (Fin a) = (0 < a)"
| "js_pos PInf = True"
| "js_pos _ = False"

fun js_le :: "jsnum \<Rightarrow> jsnum \<Rightarrow> bool" where
  "js_le (Fin a) (Fin b) = (a \<le> b)"
| "js_le NaN _ = False"
| "js_le _ NaN = False"
| "js_le NInf _ = True"
| "js_le _ PInf = True"
| "js_le _ _ = False"


text \<open>
  What a property read or an operator can yield in this program: \<open>undefined\<close>, a number,
  a member inherited from \<open>Object.prototype\<close> (a function or object, named by its key),
  or a string built by \<open>+\<close> (its characters depend on the engine and are not modelled).
\<close>

datatype jsval = Undefined | Number jsnum | ProtoMember string | Text

text \<open>
  \<open>ToNumber\<close>: \<open>undefined\<close>, a function, a plain object and the strings built from them
  all convert to NaN.
\<close>

fun to_number :: "jsval \<Rightarrow> jsnum" where
  "to_number (Number n) = n"
| "to_number _ = NaN"

fun truthy :: "jsval \<Rightarrow> bool" where
  "truthy Undefined = False"
| "truthy (Number NaN) = False"
| "truthy (Number (Fin a)) = (a \<noteq> 0)"
| "truthy _ = True"

text \<open>\<open>a || b\<close>\<close>

definition js_or :: "jsval \<Rightarrow> jsval \<Rightarrow> jsval" where
  "js_or a b = (if truthy a then a else b)"

text \<open>\<open>a + b\<close>: string concatenation as soon as one operand is an object or a string.\<close>

fun js_plus :: "jsval \<Rightarrow> jsval \<Rightarrow> jsval" where
  "js_plus (ProtoMember k) _ = Text"
| "js_plus _ (ProtoMember k) = Text"
| "js_plus Text _ = Text"
| "js_plus _ Text = Text"
| "js_plus a b = Number (js_add (to_number a) (to_number b))"

text \<open>
  An object literal with string keys is an association list in insertion order, which is
  the order of \<open>Object.entries\<close>. A property read finds an own key first and then the
  members every plain object inherits from \<open>Object.prototype\<close>.
\<close>

definition object_prototype_keys :: "string list" where
  "object_prototype_keys =
     [''constructor'', ''hasOwnProperty'', ''isPrototypeOf'', ''propertyIsEnumerable'',
      ''toLocaleString'', ''toString'', ''valueOf'', ''__proto__'',
      ''__defineGetter__'', ''__defineSetter__'', ''__lookupGetter__'', ''__lookupSetter__'']"

definition js_get :: "(string \<times> jsnum) list \<Rightarrow> string \<Rightarrow> jsval" where
  "js_get obj k =
     (case map_of obj k of
        Some v \<Rightarrow> Number v
      | None \<Rightarrow> if k \<in> set object_prototype_keys then ProtoMember k else Undefined)"

text \<open>
  \<open>Array.prototype.sort\<close> with a comparator: the sort is stable, and a comparator result
  that is NaN counts as \<open>+0\<close>. An element moves behind another only when the comparator
  is positive. The engine's algorithm is its own choice; for a comparator that orders the
  elements consistently every stable sort returns the same array, and insertion sort
  stands for it here. (The five values \<open>predict\<close> sorts are all finite or all the same
  special value, see \<open>carbonByRegion_Fin\<close> and \<open>carbonByRegion_special\<close>, so the
  comparator \<open>a - b\<close> is consistent on them.)
\<close>

fun insert_by :: "('a \<Rightarrow> 'a \<Rightarrow> jsnum) \<Rightarrow> 'a \<Rightarrow> 'a list \<Rightarrow> 'a list" where
  "insert_by cmp x [] = [x]"
| "insert_by cmp x (y # ys) =
     (if js_pos (cmp x y) then y # insert_by cmp x ys else x # y # ys)"

definition js_sort :: "('a \<Rightarrow> 'a \<Rightarrow> jsnum) \<Rightarrow> 'a list \<Rightarrow> 'a list" where
  "js_sort cmp xs = foldr (insert_by cmp) xs []"

text \<open>
  A promise is observed through its outcome. \<open>Pending\<close> is a promise that never settles
  (an exception thrown inside the timer callback would leave it so); the timer delays
  themselves are not modelled.
\<close>

datatype 'a promise = Resolved 'a | Rejected string | Pending

text \<open>The value a promise resolved to, if it did.\<close>

fun settled :: "'a promise \<Rightarrow> 'a option" where
  "settled (Resolved x) = Some x"
| "settled _ = None"

section \<open>The mock backend\<close>

record region_info =
  info_region :: string
  intensity :: jsnum
  info_source :: string

type_synonym snapshot = "(string \<times> region_info) list"

record form_data =
  model_type :: string
  batch_size :: jsnum
  dataset_size_gb :: jsnum
  gpu_count :: jsnum
  gpu_type :: string
  duration_hours :: jsnum
  region :: string

record prediction =
  predicted_carbon_kg :: jsval
  carbon_by_region :: "(string \<times> jsnum) list"
  greenest_region :: string
  potential_savings_kg :: jsnum
  savings_percentage :: jsnum
  result_region :: string
  job_id :: string

definition getCarbonData :: "snapshot promise" where
  "getCarbonData = Resolved
     [(''us-east-1'', \<lparr>info_region = ''US East (N. Virginia)'', intensity = Fin 0.38, info_source = ''EPA 2024''\<rparr>),
      (''us-west-2'', \<lparr>info_region = ''US West (Oregon)'', intensity = Fin 0.28, info_source = ''EPA 2024''\<rparr>),
      (''eu-west-1'', \<lparr>info_region = ''EU West (Ireland)'', intensity = Fin 0.32, info_source = ''EEA 2024''\<rparr>),
      (''ap-southeast-1'', \<lparr>info_region = ''Asia Pacific (Singapore)'', intensity = Fin 0.48, info_source = ''Gov SG 2024''\<rparr>),
      (''ca-central-1'', \<lparr>info_region = ''Canada (Central)'', intensity = Fin 0.12, info_source = ''Env Canada 2024''\<rparr>)]"

text \<open>
  \<open>refreshCarbonData\<close> declares no parameter; whatever arguments a caller passes are
  ignored, as JavaScript does for surplus arguments.
\<close>

definition refreshCarbonData :: "snapshot list \<Rightarrow> snapshot promise" where
  "refreshCarbonData args = Resolved
     [(''us-east-1'', \<lparr>info_region = ''US East (N. Virginia)'', intensity = Fin 0.37, info_source = ''EPA 2024''\<rparr>),
      (''us-west-2'', \<lparr>info_region = ''US West (Oregon)'', intensity = Fin 0.27, info_source = ''EPA 2024''\<rparr>),
      (''eu-west-1'', \<lparr>info_region = ''EU West (Ireland)'', intensity = Fin 0.31, info_source = ''EEA 2024''\<rparr>),
      (''ap-southeast-1'', \<lparr>info_region = ''Asia Pacific (Singapore)'', intensity = Fin 0.47, info_source = ''Gov SG 2024''\<rparr>),
      (''ca-central-1'', \<lparr>info_region = ''Canada (Central)'', intensity = Fin 0.11, info_source = ''Env Canada 2024''\<rparr>)]"

definition baseCarbon :: "form_data \<Rightarrow> jsnum" where
  "baseCarbon formData =
     js_add (js_mul (js_mul (duration_hours formData) (gpu_count formData)) (Fin 0.3))
            (js_mul (dataset_size_gb formData) (Fin 0.01))"

definition carbonByRegion :: "form_data \<Rightarrow> (string \<times> jsnum) list" where
  "carbonByRegion formData =
     [(''us-east-1'', js_mul (baseCarbon formData) (Fin 0.38)),
      (''us-west-2'', js_mul (baseCarbon formData) (Fin 0.28)),
      (''eu-west-1'', js_mul (baseCarbon formData) (Fin 0.32)),
      (''ap-southeast-1'', js_mul (baseCarbon formData) (Fin 0.48)),
      (''ca-central-1'', js_mul (baseCarbon formData) (Fin 0.12))]"

text \<open>The comparator \<open>([,a], [,b]) => a - b\<close> on entries.\<close>

definition by_value :: "string \<times> jsnum \<Rightarrow> string \<times> jsnum \<Rightarrow> jsnum" where
  "by_value p q = js_sub (snd p) (snd q)"

text \<open>
  \<open>predict\<close>; \<open>token\<close> stands for the nine characters that
  \<open>Math.random().toString(36).substr(2, 9).toUpperCase()\<close> produces on this call. The
  empty-list branch is the \<open>TypeError\<close> of \<open>[0][0]\<close> on an empty array, raised inside
  the timer callback.
\<close>

definition predict :: "form_data \<Rightarrow> string \<Rightarrow> prediction promise" where
  "predict formData token =
     (let currentCarbon = js_get (carbonByRegion formData) (region formData) in
      case js_sort by_value (carbonByRegion formData) of
        [] \<Rightarrow> Pending
      | (greenestRegion, _) # _ \<Rightarrow>
          (let bestCarbon = js_get (carbonByRegion formData) greenestRegion;
               savings = js_sub (to_number currentCarbon) (to_number bestCarbon);
               savingsPercentage = js_mul (js_div savings (to_number currentCarbon)) (Fin 100)
           in Resolved
                \<lparr>predicted_carbon_kg = currentCarbon,
                 carbon_by_region = carbonByRegion formData,
                 greenest_region = greenestRegion,
                 potential_savings_kg = savings,
                 savings_percentage = savingsPercentage,
                 result_region = region formData,
                 job_id = ''JOB_'' @ token\<rparr>))"

definition modelPower :: "(string \<times> jsnum) list" where
  "modelPower =
     [(''ResNet50'', Fin 180), (''BERT-Base'', Fin 250), (''GPT-2'', Fin 350),
      (''ViT'', Fin 220), (''YOLO'', Fin 150), (''CNN-Small'', Fin 80)]"

definition gpuPower :: "(string \<times> jsnum) list" where
  "gpuPower = [(''T4'', Fin 70), (''V100'', Fin 300), (''A100'', Fin 400)]"

definition calculateEstimatedPower :: "form_data \<Rightarrow> jsval" where
  "calculateEstimatedPower formData =
     js_plus (js_or (js_get modelPower (model_type formData)) (Number (Fin 200)))
             (Number (js_mul (to_number (js_or (js_get gpuPower (gpu_type formData)) (Number (Fin 250))))
                             (gpu_count formData)))"

section \<open>The calculator component\<close>

text \<open>
  The state hooks of \<open>CarbonCalculator\<close>. Each handler is modelled by the state it
  leaves once the backend promise it awaits has settled.
\<close>

record calc_state =
  formData :: form_data
  loading :: bool
  result :: "prediction option"
  error :: string
  carbonData :: snapshot
  updatingCarbon :: bool

definition initial_state :: calc_state where
  "initial_state =
     \<lparr>formData =
        \<lparr>model_type = ''ResNet50'', batch_size = Fin 32, dataset_size_gb = Fin 100,
         gpu_count = Fin 2, gpu_type = ''V100'', duration_hours = Fin 4.0,
         region = ''us-east-1''\<rparr>,
      loading = False, result = None, error = [], carbonData = [],
      updatingCarbon = False\<rparr>"

definition loadCarbonData :: "calc_state \<Rightarrow> calc_state" where
  "loadCarbonData s =
     (case getCarbonData of
        Resolved data \<Rightarrow> s\<lparr>carbonData := data\<rparr>
      | Rejected err \<Rightarrow> s\<lparr>error := ''Failed to load carbon intensity data''\<rparr>
      | Pending \<Rightarrow> s)"

text \<open>
  A change event of one of the seven form controls. The three selects deliver their
  string; the other controls deliver \<open>parseFloat(value)\<close>, which is any number, NaN
  included.
\<close>

datatype change_event =
    Change_model_type string
  | Change_gpu_type string
  | Change_region string
  | Change_batch_size jsnum
  | Change_dataset_size_gb jsnum
  | Change_gpu_count jsnum
  | Change_duration_hours jsnum

fun handleInputChange :: "change_event \<Rightarrow> calc_state \<Rightarrow> calc_state" where
  "handleInputChange (Change_model_type v) s = s\<lparr>formData := (formData s)\<lparr>model_type := v\<rparr>\<rparr>"
| "handleInputChange (Change_gpu_type v) s = s\<lparr>formData := (formData s)\<lparr>gpu_type := v\<rparr>\<rparr>"
| "handleInputChange (Change_region v) s = s\<lparr>formData := (formData s)\<lparr>region := v\<rparr>\<rparr>"
| "handleInputChange (Change_batch_size v) s = s\<lparr>formData := (formData s)\<lparr>batch_size := v\<rparr>\<rparr>"
| "handleInputChange (Change_dataset_size_gb v) s = s\<lparr>formData := (formData s)\<lparr>dataset_size_gb := v\<rparr>\<rparr>"
| "handleInputChange (Change_gpu_count v) s = s\<lparr>formData := (formData s)\<lparr>gpu_count := v\<rparr>\<rparr>"
| "handleInputChange (Change_duration_hours v) s = s\<lparr>formData := (formData s)\<lparr>duration_hours := v\<rparr>\<rparr>"

text \<open>\<open>handleSubmit\<close>; the message of a rejection falls back to a fixed text when empty.\<close>

definition handleSubmit :: "string \<Rightarrow> calc_state \<Rightarrow> calc_state" where
  "handleSubmit token s =
     (case predict (formData s) token of
        Resolved response \<Rightarrow> s\<lparr>error := [], result := Some response, loading := False\<rparr>
      | Rejected message \<Rightarrow>
          s\<lparr>error := (if message = [] then ''Failed to calculate carbon emissions.'' else message),
            loading := False\<rparr>
      | Pending \<Rightarrow> s\<lparr>error := [], loading := True\<rparr>)"

text \<open>The component's own \<open>refreshCarbonData\<close>, which calls the backend's without arguments.\<close>

definition refreshCarbonData_ui :: "calc_state \<Rightarrow> calc_state" where
  "refreshCarbonData_ui s =
     (case refreshCarbonData [] of
        Resolved data \<Rightarrow> s\<lparr>carbonData := data, updatingCarbon := False\<rparr>
      | Rejected err \<Rightarrow> s\<lparr>updatingCarbon := False\<rparr>
      | Pending \<Rightarrow> s\<lparr>updatingCarbon := True\<rparr>)"

text \<open>The states the component can be in: mounted, then any sequence of handler runs.\<close>

inductive reachable :: "calc_state \<Rightarrow> bool" where
  mounted: "reachable initial_state"
| loaded: "reachable s \<Longrightarrow> reachable (loadCarbonData s)"
| changed: "reachable s \<Longrightarrow> reachable (handleInputChange e s)"
| submitted: "reachable s \<Longrightarrow> reachable (handleSubmit token s)"
| refreshed: "reachable s \<Longrightarrow> reachable (refreshCarbonData_ui s)"

section \<open>The specification's formulas, for comparison\<close>

text \<open>
  The energy model and the per-region projection as the specification words them, with
  the power taken from \<open>calculateEstimatedPower\<close> and the dataset coefficient left as a
  parameter; and the field constraints of a \<open>WorkloadSpec\<close> as the specification's data
  model lists them (a float is a finite number there).
\<close>

definition spec_totalEnergyKwh :: "jsnum \<Rightarrow> form_data \<Rightarrow> jsnum" where
  "spec_totalEnergyKwh DATASET_COEFFICIENT spec =
     js_add (js_div (js_mul (to_number (calculateEstimatedPower spec)) (duration_hours spec)) (Fin 1000))
            (js_mul (dataset_size_gb spec) DATASET_COEFFICIENT)"

definition spec_carbonByRegion :: "jsnum \<Rightarrow> form_data \<Rightarrow> snapshot \<Rightarrow> (string \<times> jsnum) list" where
  "spec_carbonByRegion DATASET_COEFFICIENT spec snap =
     map (\<lambda>(r, info). (r, js_mul (spec_totalEnergyKwh DATASET_COEFFICIENT spec) (intensity info))) snap"

definition positive_float :: "jsnum \<Rightarrow> bool" where
  "positive_float x = (case x of Fin a \<Rightarrow> 0 < a | _ \<Rightarrow> False)"

definition integer_from :: "real \<Rightarrow> jsnum \<Rightarrow> bool" where
  "integer_from n x = (case x of Fin a \<Rightarrow> of_int \<lfloor>a\<rfloor> = a \<and> n \<le> a | _ \<Rightarrow> False)"

definition workload_spec_valid :: "snapshot \<Rightarrow> form_data \<Rightarrow> bool" where
  "workload_spec_valid snap spec =
     (integer_from 1 (batch_size spec) \<and> positive_float (dataset_size_gb spec) \<and>
      integer_from 1 (gpu_count spec) \<and> positive_float (duration_hours spec) \<and>
      region spec \<in> set (map fst snap))"


section \<open>Facts about the backend\<close>

lemma js_sub_self: "\<not> js_pos (js_sub v v)"
  by (cases v) (simp_all add: js_sub_def)

lemma by_value_Fin: "js_pos (by_value (k, Fin x) (l, Fin y)) = (y < x)"
  by (simp add: by_value_def js_sub_def)

lemma carbonByRegion_Fin:
  "baseCarbon fd = Fin b \<Longrightarrow>
   carbonByRegion fd =
     [(''us-east-1'', Fin (b * 0.38)), (''us-west-2'', Fin (b * 0.28)),
      (''eu-west-1'', Fin (b * 0.32)), (''ap-southeast-1'', Fin (b * 0.48)),
      (''ca-central-1'', Fin (b * 0.12))]"
  by (simp add: carbonByRegion_def)

lemma carbonByRegion_special:
  "baseCarbon fd = v \<Longrightarrow> v = NaN \<or> v = PInf \<or> v = NInf \<Longrightarrow>
   carbonByRegion fd =
     [(''us-east-1'', v), (''us-west-2'', v), (''eu-west-1'', v), (''ap-southeast-1'', v),
      (''ca-central-1'', v)]"
  by (auto simp add: carbonByRegion_def signed_inf_def)

lemma sort_positive:
  assumes "0 < b"
  shows "js_sort by_value
     [(''us-east-1'', Fin (b * 0.38)), (''us-west-2'', Fin (b * 0.28)),
      (''eu-west-1'', Fin (b * 0.32)), (''ap-southeast-1'', Fin (b * 0.48)),
      (''ca-central-1'', Fin (b * 0.12))] =
     [(''ca-central-1'', Fin (b * 0.12)), (''us-west-2'', Fin (b * 0.28)),
      (''eu-west-1'', Fin (b * 0.32)), (''us-east-1'', Fin (b * 0.38)),
      (''ap-southeast-1'', Fin (b * 0.48))]"
  using assms by (simp add: js_sort_def by_value_Fin)

lemma sort_negative:
  assumes "b < 0"
  shows "js_sort by_value
     [(''us-east-1'', Fin (b * 0.38)), (''us-west-2'', Fin (b * 0.28)),
      (''eu-west-1'', Fin (b * 0.32)), (''ap-southeast-1'', Fin (b * 0.48)),
      (''ca-central-1'', Fin (b * 0.12))] =
     [(''ap-southeast-1'', Fin (b * 0.48)), (''us-east-1'', Fin (b * 0.38)), 
      (''eu-west-1'', Fin (b * 0.32)), (''us-west-2'', Fin (b * 0.28)),
      (''ca-central-1'', Fin (b * 0.12))]"
  using assms by (simp add: js_sort_def by_value_Fin)

lemma sort_same:
  "js_sort by_value
     [(''us-east-1'', v), (''us-west-2'', v), (''eu-west-1'', v), (''ap-southeast-1'', v),
      (''ca-central-1'', v)] =
     [(''us-east-1'', v), (''us-west-2'', v), (''eu-west-1'', v), (''ap-southeast-1'', v),
      (''ca-central-1'', v)]"
  using js_sub_self [of v] by (simp add: js_sort_def by_value_def)

text \<open>The result of predict once the head of the sorted entries is known.\<close>

lemma predict_with_head:
  assumes "js_sort by_value (carbonByRegion fd) = (g, v) # rest"
  shows "predict fd token = Resolved
     \<lparr>predicted_carbon_kg = js_get (carbonByRegion fd) (region fd),
      carbon_by_region = carbonByRegion fd,
      greenest_region = g,
      potential_savings_kg =
        js_sub (to_number (js_get (carbonByRegion fd) (region fd)))
               (to_number (js_get (carbonByRegion fd) g)),
      savings_percentage =
        js_mul (js_div (js_sub (to_number (js_get (carbonByRegion fd) (region fd)))
                               (to_number (js_get (carbonByRegion fd) g)))
                       (to_number (js_get (carbonByRegion fd) (region fd))))
               (Fin 100),
      result_region = region fd,
      job_id = ''JOB_'' @ token\<rparr>"
  using assms by (simp add: predict_def Let_def)

text \<open>Which entry the sort puts first, by the sign of the base carbon.\<close>

lemma sorted_head:
  "\<exists>v rest. js_sort by_value (carbonByRegion fd) =
     ((case baseCarbon fd of
         Fin b \<Rightarrow> if 0 < b then ''ca-central-1'' else if b < 0 then ''ap-southeast-1'' else ''us-east-1''
       | _ \<Rightarrow> ''us-east-1''), v) # rest"
proof (cases "baseCarbon fd")
  case (Fin b)
  consider "0 < b" | "b < 0" | "b = 0" by linarith
  then show ?thesis
  proof cases
    case 1
    show ?thesis
      unfolding carbonByRegion_Fin [OF Fin] sort_positive [OF 1] using 1 Fin by simp
  next
    case 2
    show ?thesis
      unfolding carbonByRegion_Fin [OF Fin] sort_negative [OF 2] using 2 Fin by simp
  next
    case 3
    have "carbonByRegion fd =
      [(''us-east-1'', Fin 0), (''us-west-2'', Fin 0), (''eu-west-1'', Fin 0),
       (''ap-southeast-1'', Fin 0), (''ca-central-1'', Fin 0)]"
      using 3 Fin by (simp add: carbonByRegion_Fin)
    then show ?thesis
      using 3 Fin by (simp add: sort_same)
  qed
qed (simp_all add: carbonByRegion_special sort_same)





text \<open>The snapshot the component holds is empty or one of the two tables the backend serves.\<close>

lemma reachable_carbonData:
  "reachable s \<Longrightarrow>
     carbonData s = [] \<or> Resolved (carbonData s) = getCarbonData \<or>
     Resolved (carbonData s) = refreshCarbonData []"
proof (induction rule: reachable.induct)
  case mounted
  show ?case by (simp add: initial_state_def)
next
  case (loaded s)
  then show ?case by (simp add: loadCarbonData_def getCarbonData_def)
next
  case (changed s e)
  then show ?case by (cases e) simp_all
next
  case (submitted s token)
  then show ?case by (simp add: handleSubmit_def split: promise.splits)
next
  case (refreshed s)
  then show ?case by (simp add: refreshCarbonData_ui_def refreshCarbonData_def)
qed

lemma snapshot_keys:
  assumes "reachable s" and "carbonData s \<noteq> []"
  shows "map fst (carbonData s) =
     [''us-east-1'', ''us-west-2'', ''eu-west-1'', ''ap-southeast-1'', ''ca-central-1'']"
  using reachable_carbonData [OF assms(1)] assms(2)
  by (auto simp add: getCarbonData_def refreshCarbonData_def)

lemma predict_greenest:
  assumes "js_sort by_value (carbonByRegion fd) = (g, v) # rest"
  shows "\<exists>r. predict fd token = Resolved r \<and> carbon_by_region r = carbonByRegion fd \<and>
     greenest_region r = g"
  by (simp add: predict_with_head [OF assms])



section \<open>Claims\<close>

subsection \<open>The carbon projection\<close>

text \<open>
  Claim C1 says that the projection is built from the estimated power: energy
  \<open>powerWatts * durationHours / 1000\<close> plus a dataset overhead, times the snapshot's
  intensity. For the default form the estimated power is 780 W, so with the dataset
  coefficient 0.01 that \<open>predict\<close> itself uses the formula gives 1.5656 kg for
  \<open>us-east-1\<close>; \<open>predict\<close> gives 1.292 kg. Changing the model to GPT-2 raises the
  estimated power to 950 W and leaves the prediction as it was, so no coefficient
  reconciles the two.
\<close>

theorem predict_not_power_based:
  "map_option carbon_by_region (settled (predict (formData initial_state) ''K3XQ91ZAB'')) =
     Some [(''us-east-1'', Fin 1.292), (''us-west-2'', Fin 0.952), (''eu-west-1'', Fin 1.088),
           (''ap-southeast-1'', Fin 1.632), (''ca-central-1'', Fin 0.408)] \<and>
   map_option (spec_carbonByRegion (Fin 0.01) (formData initial_state)) (settled getCarbonData) =
     Some [(''us-east-1'', Fin 1.5656), (''us-west-2'', Fin 1.1536), (''eu-west-1'', Fin 1.3184),
           (''ap-southeast-1'', Fin 1.9776), (''ca-central-1'', Fin 0.4944)] \<and>
   calculateEstimatedPower (formData initial_state) = Number (Fin 780) \<and>
   calculateEstimatedPower ((formData initial_state)\<lparr>model_type := ''GPT-2''\<rparr>) = Number (Fin 950) \<and>
   predict ((formData initial_state)\<lparr>model_type := ''GPT-2''\<rparr>) ''K3XQ91ZAB'' =
     predict (formData initial_state) ''K3XQ91ZAB''"
proof (intro conjI)
  show "map_option carbon_by_region (settled (predict (formData initial_state) ''K3XQ91ZAB'')) =
     Some [(''us-east-1'', Fin 1.292), (''us-west-2'', Fin 0.952), (''eu-west-1'', Fin 1.088),
           (''ap-southeast-1'', Fin 1.632), (''ca-central-1'', Fin 0.408)]"
    by (simp add: predict_def carbonByRegion_def baseCarbon_def js_sort_def by_value_def js_sub_def
        js_get_def initial_state_def Let_def)
  show "map_option (spec_carbonByRegion (Fin 0.01) (formData initial_state)) (settled getCarbonData) =
     Some [(''us-east-1'', Fin 1.5656), (''us-west-2'', Fin 1.1536), (''eu-west-1'', Fin 1.3184),
           (''ap-southeast-1'', Fin 1.9776), (''ca-central-1'', Fin 0.4944)]"
    by (simp add: spec_carbonByRegion_def spec_totalEnergyKwh_def getCarbonData_def
        calculateEstimatedPower_def js_get_def js_or_def modelPower_def gpuPower_def initial_state_def)
  show "calculateEstimatedPower (formData initial_state) = Number (Fin 780)"
    by (simp add: calculateEstimatedPower_def js_get_def js_or_def modelPower_def gpuPower_def
        initial_state_def)
  show "calculateEstimatedPower ((formData initial_state)\<lparr>model_type := ''GPT-2''\<rparr>) = Number (Fin 950)"
    by (simp add: calculateEstimatedPower_def js_get_def js_or_def modelPower_def gpuPower_def
        initial_state_def)
  show "predict ((formData initial_state)\<lparr>model_type := ''GPT-2''\<rparr>) ''K3XQ91ZAB'' =
     predict (formData initial_state) ''K3XQ91ZAB''"
    by (simp add: predict_def carbonByRegion_def baseCarbon_def js_sort_def by_value_def js_sub_def
        js_get_def initial_state_def Let_def)
qed

text \<open>
  Claim C1, as the code has it: \<open>predict\<close> computes the base quantity
  \<open>duration_hours * gpu_count * 0.3 + dataset_size_gb * 0.01\<close> and sets the entry of each
  of its five built-in regions to that quantity times a built-in constant; the constants
  are the intensities of the table \<open>getCarbonData\<close> serves. The model type, the GPU type
  and the batch size (hence the estimated power) do not enter.
\<close>

theorem predict_carbon_by_region:
  "\<exists>r snap. predict fd token = Resolved r \<and> getCarbonData = Resolved snap \<and>
     carbon_by_region r =
       map (\<lambda>(k, info).
              (k, js_mul (js_add (js_mul (js_mul (duration_hours fd) (gpu_count fd)) (Fin 0.3))
                                 (js_mul (dataset_size_gb fd) (Fin 0.01)))
                         (intensity info)))
           snap \<and>
     predict (fd\<lparr>model_type := m, gpu_type := g, batch_size := n\<rparr>) token = predict fd token"
proof -
  obtain gr v rest where head: "js_sort by_value (carbonByRegion fd) = (gr, v) # rest"
    using sorted_head [of fd] by blast
  have same: "carbonByRegion (fd\<lparr>model_type := m, gpu_type := g, batch_size := n\<rparr>) = carbonByRegion fd"
    by (simp add: carbonByRegion_def baseCarbon_def)
  have "predict (fd\<lparr>model_type := m, gpu_type := g, batch_size := n\<rparr>) token = predict fd token"
    using head by (simp add: predict_with_head same)
  then show ?thesis
    by (simp add: predict_with_head [OF head] getCarbonData_def carbonByRegion_def baseCarbon_def)
qed

subsection \<open>Unknown regions\<close>

text \<open>
  Claim C2 says that a region absent from the snapshot makes the estimation fail with an
  \<open>UnknownRegionError\<close> naming the region and listing the known ones. \<open>predict\<close> has no
  such failure: for the default form with region \<open>C\<close> it resolves, with an undefined
  \<open>predicted_carbon_kg\<close> and NaN savings.
\<close>

theorem predict_unknown_region_example:
  "predict ((formData initial_state)\<lparr>region := ''C''\<rparr>) ''K3XQ91ZAB'' = Resolved
     \<lparr>predicted_carbon_kg = Undefined,
      carbon_by_region =
        [(''us-east-1'', Fin 1.292), (''us-west-2'', Fin 0.952), (''eu-west-1'', Fin 1.088),
         (''ap-southeast-1'', Fin 1.632), (''ca-central-1'', Fin 0.408)],
      greenest_region = ''ca-central-1'',
      potential_savings_kg = NaN,
      savings_percentage = NaN,
      result_region = ''C'',
      job_id = ''JOB_K3XQ91ZAB''\<rparr>"
  by (simp add: predict_def carbonByRegion_def baseCarbon_def js_sort_def by_value_def js_sub_def
      js_get_def object_prototype_keys_def initial_state_def)

text \<open>
  Claim C2, as the code has it: whenever the region is not a key of the built-in table,
  \<open>predict\<close> still resolves. The result echoes the region, its \<open>predicted_carbon_kg\<close> is
  \<open>undefined\<close> (or the inherited \<open>Object.prototype\<close> member of that name), and both
  savings figures are NaN; the per-region table is the usual one.
\<close>

theorem predict_unknown_region:
  assumes "region fd \<notin> set (map fst (carbonByRegion fd))"
  shows "\<exists>r. predict fd token = Resolved r \<and>
     predicted_carbon_kg r =
       (if region fd \<in> set object_prototype_keys then ProtoMember (region fd) else Undefined) \<and>
     potential_savings_kg r = NaN \<and> savings_percentage r = NaN \<and>
     result_region r = region fd \<and> carbon_by_region r = carbonByRegion fd"
proof -
  obtain g v rest where "js_sort by_value (carbonByRegion fd) = (g, v) # rest"
    using sorted_head [of fd] by blast
  moreover have "map_of (carbonByRegion fd) (region fd) = None"
    using assms by (simp add: map_of_eq_None_iff)
  then have "js_get (carbonByRegion fd) (region fd) =
      (if region fd \<in> set object_prototype_keys then ProtoMember (region fd) else Undefined)"
    by (simp add: js_get_def)
  ultimately show ?thesis
    by (simp add: predict_with_head js_sub_def)
qed

theorem predict_unknown_region_witness:
  "\<exists>r. predict ((formData initial_state)\<lparr>region := ''C''\<rparr>) ''T'' = Resolved r \<and>
     predicted_carbon_kg r = Undefined \<and> potential_savings_kg r = NaN \<and> savings_percentage r = NaN \<and>
     result_region r = ''C''"
  using predict_unknown_region [of "(formData initial_state)\<lparr>region := ''C''\<rparr>" "''T''"]
  by (auto simp add: carbonByRegion_def object_prototype_keys_def initial_state_def)

subsection \<open>Keys of the projection\<close>

text \<open>
  Claim C3 says that \<open>carbon_by_region\<close> has the snapshot's keys for every non-empty
  snapshot. \<open>predict\<close> never sees the snapshot: for the two-region snapshot \<open>A\<close>, \<open>B\<close> and
  a workload in region \<open>A\<close>, valid against it, the prediction still has the five built-in
  keys.
\<close>

theorem snapshot_keys_differ:
  "[(''A'', \<lparr>info_region = ''Region A'', intensity = Fin 0.4, info_source = ''test''\<rparr>),
    (''B'', \<lparr>info_region = ''Region B'', intensity = Fin 0.1, info_source = ''test''\<rparr>)] \<noteq> [] \<and>
   workload_spec_valid
     [(''A'', \<lparr>info_region = ''Region A'', intensity = Fin 0.4, info_source = ''test''\<rparr>),
      (''B'', \<lparr>info_region = ''Region B'', intensity = Fin 0.1, info_source = ''test''\<rparr>)]
     ((formData initial_state)\<lparr>region := ''A''\<rparr>) \<and>
   map fst
     [(''A'', \<lparr>info_region = ''Region A'', intensity = Fin 0.4, info_source = ''test''\<rparr>),
      (''B'', \<lparr>info_region = ''Region B'', intensity = Fin 0.1, info_source = ''test''\<rparr>)] =
     [''A'', ''B''] \<and>
   map_option (\<lambda>r. map fst (carbon_by_region r))
     (settled (predict ((formData initial_state)\<lparr>region := ''A''\<rparr>) ''K3XQ91ZAB'')) =
     Some [''us-east-1'', ''us-west-2'', ''eu-west-1'', ''ap-southeast-1'', ''ca-central-1'']"
  by (simp add: workload_spec_valid_def integer_from_def positive_float_def predict_def
      carbonByRegion_def baseCarbon_def js_sort_def by_value_def js_sub_def js_get_def
      object_prototype_keys_def initial_state_def Let_def)

text \<open>
  Claim C3, as the code has it: whatever the form data and the snapshot, the
  \<open>carbon_by_region\<close> of a prediction has exactly the five built-in keys, each once.
  These are the snapshot's keys, in the same order, whenever the component holds a
  non-empty snapshot, because both tables the backend serves have those five keys.
\<close>

theorem carbon_by_region_keys:
  "\<exists>r. predict (formData s) token = Resolved r \<and>
     map fst (carbon_by_region r) =
       [''us-east-1'', ''us-west-2'', ''eu-west-1'', ''ap-southeast-1'', ''ca-central-1''] \<and>
     distinct (map fst (carbon_by_region r)) \<and>
     (reachable s \<and> carbonData s \<noteq> [] \<longrightarrow>
        map fst (carbon_by_region r) = map fst (carbonData s))"
proof -
  obtain gr v rest where head: "js_sort by_value (carbonByRegion (formData s)) = (gr, v) # rest"
    using sorted_head [of "formData s"] by blast
  show ?thesis
    using snapshot_keys [of s]
    by (simp add: predict_with_head [OF head] carbonByRegion_def)
qed

theorem carbon_by_region_keys_witness:
  "carbonData (refreshCarbonData_ui (loadCarbonData initial_state)) \<noteq> [] \<and>
   (\<exists>r. predict (formData (refreshCarbonData_ui (loadCarbonData initial_state))) ''K3XQ91ZAB'' = Resolved r \<and>
     map fst (carbon_by_region r) = map fst (carbonData (refreshCarbonData_ui (loadCarbonData initial_state))) \<and>
     distinct (map fst (carbon_by_region r)))"
proof -
  have reach: "reachable (refreshCarbonData_ui (loadCarbonData initial_state))"
    by (intro reachable.intros)
  have nonempty: "carbonData (refreshCarbonData_ui (loadCarbonData initial_state)) \<noteq> []"
    by (simp add: refreshCarbonData_ui_def refreshCarbonData_def)
  show ?thesis
    using carbon_by_region_keys [of "refreshCarbonData_ui (loadCarbonData initial_state)" "''K3XQ91ZAB''"]
      reach nonempty by blast
qed

subsection \<open>The greenest region\<close>

text \<open>
  Claim C4 says that ties for the minimum are broken by the lexicographic order of the
  region codes. With a zero duration and a zero dataset size all five projections are 0;
  the stable sort leaves the first entry of the table, \<open>us-east-1\<close>, in front, although
  \<open>ap-southeast-1\<close> has the same value and precedes it lexicographically.
\<close>

theorem tie_goes_to_first_entry:
  "predict ((formData initial_state)\<lparr>dataset_size_gb := Fin 0, duration_hours := Fin 0\<rparr>) ''K3XQ91ZAB'' =
     Resolved
      \<lparr>predicted_carbon_kg = Number (Fin 0),
       carbon_by_region =
         [(''us-east-1'', Fin 0), (''us-west-2'', Fin 0), (''eu-west-1'', Fin 0),
          (''ap-southeast-1'', Fin 0), (''ca-central-1'', Fin 0)],
       greenest_region = ''us-east-1'',
       potential_savings_kg = Fin 0,
       savings_percentage = NaN,
       result_region = ''us-east-1'',
       job_id = ''JOB_K3XQ91ZAB''\<rparr> \<and>
   ''ap-southeast-1'' < ''us-east-1''"
  by (simp add: predict_def carbonByRegion_def baseCarbon_def js_sort_def by_value_def js_sub_def
      js_get_def initial_state_def Let_def)

text \<open>
  Claim C4, as the code has it: unless the base carbon is NaN, \<open>greenest_region\<close> is the
  first entry of \<open>carbon_by_region\<close>, in the table's own order, whose value is minimal:
  no entry has a smaller value, every entry before it has a strictly larger value and
  every entry after it a value at least as large. Ties therefore go to the entry written
  first in the table.
\<close>

theorem greenest_region_first_minimum:
  assumes "baseCarbon fd \<noteq> NaN"
  shows "\<exists>r before v after. predict fd token = Resolved r \<and>
     carbon_by_region r = before @ (greenest_region r, v) # after \<and>
     (\<forall>(k, w) \<in> set (carbon_by_region r). js_le v w) \<and>
     (\<forall>(k, w) \<in> set before. \<not> js_le w v) \<and>
     (\<forall>(k, w) \<in> set after. js_le v w)"
proof -
  have same: ?thesis
    if cbr: "carbonByRegion fd =
        [(''us-east-1'', x), (''us-west-2'', x), (''eu-west-1'', x), (''ap-southeast-1'', x),
         (''ca-central-1'', x)]"
      and x: "js_le x x" for x
  proof -
    have "js_sort by_value (carbonByRegion fd) = (''us-east-1'', x) # tl (carbonByRegion fd)"
      unfolding cbr sort_same by simp
    then obtain r where r: "predict fd token = Resolved r"
      "carbon_by_region r = carbonByRegion fd" "greenest_region r = ''us-east-1''"
      using predict_greenest by blast
    have "carbon_by_region r = [] @ (greenest_region r, x) # tl (carbonByRegion fd)"
      using r cbr by simp
    moreover have "\<forall>(k, w) \<in> set (carbon_by_region r). js_le x w"
      using x r by (simp add: cbr)
    moreover have "\<forall>(k, w) \<in> set []. \<not> js_le w x"
      by simp
    moreover have "\<forall>(k, w) \<in> set (tl (carbonByRegion fd)). js_le x w"
      using x by (simp add: cbr)
    ultimately show ?thesis
      using r(1) by blast
  qed
  show ?thesis
  proof (cases "baseCarbon fd")
    case NaN
    with assms show ?thesis by simp
  next
    case PInf
    show ?thesis
      using same [of PInf] carbonByRegion_special [OF PInf] by simp
  next
    case NInf
    show ?thesis
      using same [of NInf] carbonByRegion_special [OF NInf] by simp
  next
    case (Fin b)
    note cbr = carbonByRegion_Fin [OF Fin]
    consider "0 < b" | "b < 0" | "b = 0" by linarith
    then show ?thesis
    proof cases
      case 1
      have "js_sort by_value (carbonByRegion fd) =
        (''ca-central-1'', Fin (b * 0.12)) #
        [(''us-west-2'', Fin (b * 0.28)), (''eu-west-1'', Fin (b * 0.32)),
         (''us-east-1'', Fin (b * 0.38)), (''ap-southeast-1'', Fin (b * 0.48))]"
        unfolding cbr sort_positive [OF 1] ..
      then obtain r where r: "predict fd token = Resolved r"
        "carbon_by_region r = carbonByRegion fd" "greenest_region r = ''ca-central-1''"
        using predict_greenest by blast
      have "carbon_by_region r =
          [(''us-east-1'', Fin (b * 0.38)), (''us-west-2'', Fin (b * 0.28)),
           (''eu-west-1'', Fin (b * 0.32)), (''ap-southeast-1'', Fin (b * 0.48))] @
          (greenest_region r, Fin (b * 0.12)) # []"
        using r cbr by simp
      moreover have "\<forall>(k, w) \<in> set (carbon_by_region r). js_le (Fin (b * 0.12)) w"
        using 1 r by (simp add: cbr)
      moreover have "\<forall>(k, w) \<in> set [(''us-east-1'', Fin (b * 0.38)), (''us-west-2'', Fin (b * 0.28)),
           (''eu-west-1'', Fin (b * 0.32)), (''ap-southeast-1'', Fin (b * 0.48))].
           \<not> js_le w (Fin (b * 0.12))"
        using 1 by simp
      moreover have "\<forall>(k, w) \<in> set []. js_le (Fin (b * 0.12)) w"
        by simp
      ultimately show ?thesis
        using r(1) by blast
    next
      case 2
      have "js_sort by_value (carbonByRegion fd) =
        (''ap-southeast-1'', Fin (b * 0.48)) #
        [(''us-east-1'', Fin (b * 0.38)), (''eu-west-1'', Fin (b * 0.32)),
         (''us-west-2'', Fin (b * 0.28)), (''ca-central-1'', Fin (b * 0.12))]"
        unfolding cbr sort_negative [OF 2] ..
      then obtain r where r: "predict fd token = Resolved r"
        "carbon_by_region r = carbonByRegion fd" "greenest_region r = ''ap-southeast-1''"
        using predict_greenest by blast
      have "carbon_by_region r =
          [(''us-east-1'', Fin (b * 0.38)), (''us-west-2'', Fin (b * 0.28)),
           (''eu-west-1'', Fin (b * 0.32))] @
          (greenest_region r, Fin (b * 0.48)) # [(''ca-central-1'', Fin (b * 0.12))]"
        using r cbr by simp
      moreover have "\<forall>(k, w) \<in> set (carbon_by_region r). js_le (Fin (b * 0.48)) w"
        using 2 r by (simp add: cbr)
      moreover have "\<forall>(k, w) \<in> set [(''us-east-1'', Fin (b * 0.38)), (''us-west-2'', Fin (b * 0.28)),
           (''eu-west-1'', Fin (b * 0.32))]. \<not> js_le w (Fin (b * 0.48))"
        using 2 by simp
      moreover have "\<forall>(k, w) \<in> set [(''ca-central-1'', Fin (b * 0.12))]. js_le (Fin (b * 0.48)) w"
        using 2 by simp
      ultimately show ?thesis
        using r(1) by blast
    next
      case 3
      show ?thesis
        using same [of "Fin 0"] 3 by (simp add: cbr)
    qed
  qed
qed

theorem greenest_region_first_minimum_witness:
  "baseCarbon (formData initial_state) \<noteq> NaN \<and>
   (\<exists>r before v after. predict (formData initial_state) ''K3XQ91ZAB'' = Resolved r \<and>
     carbon_by_region r = before @ (greenest_region r, v) # after \<and>
     (\<forall>(k, w) \<in> set (carbon_by_region r). js_le v w) \<and>
     (\<forall>(k, w) \<in> set before. \<not> js_le w v) \<and>
     (\<forall>(k, w) \<in> set after. js_le v w))"
proof -
  have base: "baseCarbon (formData initial_state) \<noteq> NaN"
    by (simp add: baseCarbon_def initial_state_def)
  show ?thesis
    using greenest_region_first_minimum [OF base] base by blast
qed

subsection \<open>Power estimate\<close>

text \<open>
  For a model type and a GPU type that are not names of \<open>Object.prototype\<close> members,
  \<open>calculateEstimatedPower\<close> is the catalogue wattage of the model (200 when absent) plus
  the catalogue wattage of the GPU (250 when absent) times the GPU count.
\<close>

lemma calculateEstimatedPower_catalogue:
  assumes "model_type fd \<notin> set object_prototype_keys"
    and "gpu_type fd \<notin> set object_prototype_keys"
  shows "calculateEstimatedPower fd =
     Number (js_add (case map_of modelPower (model_type fd) of Some w \<Rightarrow> w | None \<Rightarrow> Fin 200)
                    (js_mul (case map_of gpuPower (gpu_type fd) of Some w \<Rightarrow> w | None \<Rightarrow> Fin 250)
                            (gpu_count fd)))"
  using assms
  by (auto simp add: calculateEstimatedPower_def js_get_def js_or_def modelPower_def gpuPower_def
      split: option.splits)

text \<open>
  Claim C5 says that every model type outside the catalogue contributes the 200 W
  default. The fallback \<open>modelPower[...] || 200\<close> reads the property through the prototype
  chain, so the uncatalogued name \<open>constructor\<close> yields the inherited function, which is
  truthy: the sum becomes a string concatenation instead of \<open>200 + 300 * 2\<close>.
\<close>

theorem calculateEstimatedPower_inherited_key:
  "calculateEstimatedPower ((formData initial_state)\<lparr>model_type := ''constructor''\<rparr>) = Text"
  by (simp add: calculateEstimatedPower_def js_get_def js_or_def modelPower_def gpuPower_def
      object_prototype_keys_def initial_state_def)

subsection \<open>Savings\<close>




subsection \<open>Repeated calls\<close>


subsection \<open>Bounds of the savings percentage\<close>




subsection \<open>Refreshing the carbon data\<close>

text \<open>
  Claim C9 says that \<open>refresh(X)\<close> installs and returns \<open>X\<close> for every snapshot \<open>X\<close>.
  \<open>refreshCarbonData\<close> takes no snapshot: called with a one-region snapshot it resolves
  to something else.
\<close>

theorem refresh_ignores_argument:
  "refreshCarbonData
     [[(''A'', \<lparr>info_region = ''Region A'', intensity = Fin 0.4, info_source = ''test''\<rparr>)]] \<noteq>
   Resolved [(''A'', \<lparr>info_region = ''Region A'', intensity = Fin 0.4, info_source = ''test''\<rparr>)]"
  by (simp add: refreshCarbonData_def)

text \<open>
  Claim C9, as the code has it: whatever it is called with, \<open>refreshCarbonData\<close> resolves
  to one fixed five-region table (intensities 0.37, 0.27, 0.31, 0.47, 0.11), and the
  component's refresh stores exactly that table, so the \<open>carbonData\<close> read next is the
  value the refresh returned.
\<close>

theorem refresh_round_trip:
  "\<exists>snap. refreshCarbonData args = Resolved snap \<and>
      refreshCarbonData args = refreshCarbonData [] \<and>
      carbonData (refreshCarbonData_ui s) = snap \<and>
      map (\<lambda>(r, info). (r, intensity info)) snap =
        [(''us-east-1'', Fin 0.37), (''us-west-2'', Fin 0.27), (''eu-west-1'', Fin 0.31),
         (''ap-southeast-1'', Fin 0.47), (''ca-central-1'', Fin 0.11)]"
  by (simp add: refreshCarbonData_def refreshCarbonData_ui_def)

subsection \<open>Independence of the snapshot\<close>




end
